theory Spec2Isabelle
  imports Complex_Main "HOL-Library.Word" "HOL-Library.Signed_Division"
begin

section \<open>The OpenXR headset controller of SIBR core (core/openxr/OpenXRHMD)\<close>

text \<open>
  A shallow embedding of class \<open>sibr::OpenXRHMD\<close> (OpenXRHMD.hpp, OpenXRHMD.cpp) and of
  \<open>xrCheck\<close> (OpenXRHelper.hpp). Every member function becomes a function on a record of
  the data members. The OpenXR runtime, the clocks, GLEW and the callbacks registered by the
  application are outside the class: the model records every interaction with them in the
  field \<open>calls\<close>, oldest first, and takes the answer to an interaction from a parameter
  \<open>rt\<close>, a function of the whole history including the interaction being answered. Diagnostic
  output is modelled where a function's contract speaks of it (the accessors and
  \<open>setResolution\<close>) and left out elsewhere. Values of type float are modelled by real
  numbers: rounding is not modelled, division by zero is.
\<close>

subsection \<open>Enumerations\<close>

text \<open>\<open>enum class SessionStatus\<close> (OpenXRHMD.hpp).\<close>

datatype SessionStatus = STOPPED | IDLE | BEGINNING | SYNCHRONIZED | ENDING | FAILURE

text \<open>
  \<open>XrSessionState\<close> of openxr.h. It is a C enumeration delivered by the runtime, so a value
  outside the named ones can arrive: \<open>XR_SESSION_STATE_unnamed\<close> carries it.
\<close>

datatype XrSessionState =
    XR_SESSION_STATE_UNKNOWN
  | XR_SESSION_STATE_IDLE
  | XR_SESSION_STATE_READY
  | XR_SESSION_STATE_SYNCHRONIZED
  | XR_SESSION_STATE_VISIBLE
  | XR_SESSION_STATE_FOCUSED
  | XR_SESSION_STATE_STOPPING
  | XR_SESSION_STATE_LOSS_PENDING
  | XR_SESSION_STATE_EXITING
  | XR_SESSION_STATE_MAX_ENUM
  | XR_SESSION_STATE_unnamed int

text \<open>The type tag of the event buffer filled by \<open>xrPollEvent\<close>, as far as \<open>pollEvents\<close> tells the tags apart.\<close>

datatype XrEventType =
    XR_TYPE_EVENT_DATA_INSTANCE_LOSS_PENDING
  | XR_TYPE_EVENT_DATA_SESSION_STATE_CHANGED
  | XR_TYPE_EVENT_DATA_INTERACTION_PROFILE_CHANGED
  | XR_TYPE_EVENT_DATA_other

datatype Eye = LEFT | RIGHT

datatype AngleUnit = RADIAN | DEGREE

subsection \<open>Structures\<close>

text \<open>
  The value of a float division: a real number, or what IEEE arithmetic yields when the
  divisor is zero.
\<close>

datatype cfloat = Finite real | PlusInfinity | MinusInfinity | NaN

text \<open>
  \<open>XrFrameState\<close>: \<open>XrTime\<close> and \<open>XrDuration\<close> are signed 64-bit counts of nanoseconds.
  The only arithmetic on them is one subtraction of two time stamps, which cannot leave the
  64-bit range for the non-negative values a runtime hands out, so they are integers here.
  The field \<open>shouldRender\<close> is an \<open>XrBool32\<close>.
\<close>

record XrFrameState =
  predictedDisplayTime :: int
  predictedDisplayPeriod :: int
  shouldRenderFlag :: nat

record XrQuaternionf =
  q_x :: real
  q_y :: real
  q_z :: real
  q_w :: real

record XrVector3f =
  v_x :: real
  v_y :: real
  v_z :: real

record XrPosef =
  orientation :: XrQuaternionf
  position :: XrVector3f

record XrFovf =
  angleLeft :: real
  angleRight :: real
  angleUp :: real
  angleDown :: real

record XrView =
  pose :: XrPosef
  fov :: XrFovf

text \<open>\<open>XrCompositionLayerProjectionView\<close>: the fields the class writes. A field that has not been written yet is \<open>None\<close>.\<close>

record ProjectionView =
  pv_swapchain :: "nat option"
  pv_extent :: "int \<times> int"
  pv_pose :: "XrPosef option"
  pv_fov :: "XrFovf option"

text \<open>
  \<open>struct FrameRefreshReport\<close>. The counters are \<open>unsigned int\<close>; the time stamp is a
  \<open>std::chrono\<close> time point, modelled as the number of nanoseconds since the clock's epoch.
\<close>

record FrameRefreshReport =
  nbMissedFrames :: "32 word"
  totalRenderedFrames :: "32 word"
  expectedFramerate :: cfloat
  measuredFramerate :: cfloat
  firstFrameTimestamp :: int

subsection \<open>The world outside the class\<close>

text \<open>
  An interaction with the world: a call of the OpenXR runtime, of GLEW or of a clock, or the
  invocation of a callback of the application. Swapchain calls carry the swapchain handle,
  \<open>xrEndFrame\<close> its layer count, an enumeration its capacity, \<open>xrCreateSwapchain\<close> the
  format, the sample count and the resolution, \<open>renderFunc\<close> its two arguments.
\<close>

datatype xr_call =
    GlewInit
  | XrCreateSession
  | XrCreateReferenceSpace
  | XrEnumerateSwapchainFormats nat
  | XrCreateSwapchain int nat "int \<times> int"
  | XrEnumerateSwapchainImages nat nat
  | XrPollEvent
  | XrDestroyInstance
  | XrBeginSession
  | XrEndSession
  | XrDestroySession
  | XrRequestExitSession
  | XrWaitFrame
  | XrConvertTimeToXrTime
  | XrLocateViews
  | XrBeginFrame
  | XrAcquireSwapchainImage nat
  | XrWaitSwapchainImage nat
  | XrReleaseSwapchainImage nat
  | XrEndFrame nat
  | ClockNow
  | RenderFunc nat nat
  | IdleCallback
  | VisibleCallback
  | FocusedCallback

text \<open>
  What the world hands back: the result code and whatever the call leaves in its output
  parameters. A call reads the fields that belong to it and ignores the others.
\<close>

record xr_response =
  r_result :: int
  r_handle :: nat
  r_count :: nat
  r_formats :: "int list"
  r_images :: "nat list"
  r_index :: nat
  r_event_type :: XrEventType
  r_event_state :: XrSessionState
  r_frame :: XrFrameState
  r_views :: "XrView list"
  r_time :: int

type_synonym runtime = "xr_call list \<Rightarrow> xr_response"

subsection \<open>The data members\<close>

text \<open>
  Arrays obtained from \<open>malloc\<close> are lists of optional values: \<open>None\<close> is an element that
  has not been written since the allocation, and the empty list is the \<open>NULL\<close> pointer of
  the member initialisers. Handles are natural numbers, \<open>XR_NULL_HANDLE\<close> is 0. A
  \<open>std::function\<close> member is modelled by whether a callback is registered; invoking it is
  an interaction with the world (a callback that re-enters the class is not modelled).
  Of an \<open>XrViewConfigurationView\<close> the model keeps the recommended sample count, the one
  field read after \<open>init\<close>.
\<close>

record hmd =
  m_lastFrameState :: XrFrameState
  m_currentState :: XrSessionState
  m_status :: SessionStatus
  m_resolution :: "int \<times> int"
  m_playSpace :: nat
  m_instance :: nat
  m_session :: nat
  m_viewCount :: nat
  m_viewConfigViews :: "nat option list"
  m_projectionViews :: "ProjectionView option list"
  views :: "XrView option list"
  m_swapchains :: "nat option list"
  m_swapchainsLengths :: "nat option list"
  m_swapchainsImages :: "nat option list option list"
  m_lastFrameRefreshReport :: FrameRefreshReport
  m_currentFrameRefreshReport :: FrameRefreshReport
  m_idleCallback :: bool
  m_visibleCallback :: bool
  m_focusedCallback :: bool
  calls :: "xr_call list"

text \<open>Issue a call: append it to the history and read the world's answer.\<close>

definition call :: "runtime \<Rightarrow> xr_call \<Rightarrow> hmd \<Rightarrow> xr_response \<times> hmd" where
  "call rt c s = (rt (calls s @ [c]), s\<lparr>calls := calls s @ [c]\<rparr>)"

text \<open>Invoke a callback of the application.\<close>

definition invoke :: "xr_call \<Rightarrow> hmd \<Rightarrow> hmd" where
  "invoke c s = s\<lparr>calls := calls s @ [c]\<rparr>"

text \<open>\<open>xrCheck\<close> (OpenXRHelper.hpp): \<open>XR_SUCCEEDED(result)\<close> is \<open>result >= 0\<close>.\<close>

definition xrCheck :: "xr_response \<Rightarrow> bool" where
  "xrCheck r = (0 \<le> r_result r)"

definition XR_SUCCESS :: int where
  "XR_SUCCESS = 0"

definition XR_NULL_HANDLE :: nat where
  "XR_NULL_HANDLE = 0"

subsection \<open>Session status\<close>

definition isSessionRunning :: "hmd \<Rightarrow> bool" where
  "isSessionRunning s = (m_status s \<noteq> FAILURE \<and> m_status s \<noteq> STOPPED)"

text \<open>
  \<open>updateCurrentSessionState\<close>: the switch over the new runtime state. The states without
  a case label fall out of the switch unchanged.
\<close>

definition updateCurrentSessionState :: "runtime \<Rightarrow> XrSessionState \<Rightarrow> hmd \<Rightarrow> hmd" where
  "updateCurrentSessionState rt state s0 =
     (let s = s0\<lparr>m_currentState := state\<rparr> in
      case state of
        XR_SESSION_STATE_MAX_ENUM \<Rightarrow> s
      | XR_SESSION_STATE_UNKNOWN \<Rightarrow> s
      | XR_SESSION_STATE_IDLE \<Rightarrow>
          (let s1 = s\<lparr>m_status := IDLE\<rparr> in
           if m_idleCallback s1 then invoke IdleCallback s1 else s1)
      | XR_SESSION_STATE_SYNCHRONIZED \<Rightarrow> s\<lparr>m_status := SYNCHRONIZED\<rparr>
      | XR_SESSION_STATE_FOCUSED \<Rightarrow>
          (if m_focusedCallback s then invoke FocusedCallback s else s)
      | XR_SESSION_STATE_VISIBLE \<Rightarrow>
          (if m_visibleCallback s then invoke VisibleCallback s else s)
      | XR_SESSION_STATE_READY \<Rightarrow>
          (if m_status s \<noteq> BEGINNING then
             (let (r, s1) = call rt XrBeginSession s in
              if \<not> xrCheck r then s1\<lparr>m_status := FAILURE\<rparr>
              else s1\<lparr>m_status := BEGINNING\<rparr>)
           else s)
      | XR_SESSION_STATE_STOPPING \<Rightarrow>
          (if m_status s \<noteq> ENDING then
             (let (r, s1) = call rt XrEndSession s in
              if \<not> xrCheck r then s1\<lparr>m_status := FAILURE\<rparr>
              else s1\<lparr>m_status := ENDING\<rparr>)
           else s)
      | XR_SESSION_STATE_LOSS_PENDING \<Rightarrow>
          (let (r, s1) = call rt XrDestroySession s in
           if \<not> xrCheck r then s1\<lparr>m_status := FAILURE\<rparr>
           else s1\<lparr>m_session := XR_NULL_HANDLE, m_status := STOPPED\<rparr>)
      | XR_SESSION_STATE_EXITING \<Rightarrow>
          (let (r, s1) = call rt XrDestroySession s in
           if \<not> xrCheck r then s1\<lparr>m_status := FAILURE\<rparr>
           else s1\<lparr>m_session := XR_NULL_HANDLE, m_status := STOPPED\<rparr>)
      | XR_SESSION_STATE_unnamed v \<Rightarrow> s)"

text \<open>A sequence of state-change events, delivered one after the other.\<close>

fun deliver :: "runtime \<Rightarrow> XrSessionState list \<Rightarrow> hmd \<Rightarrow> hmd" where
  "deliver rt [] s = s"
| "deliver rt (e # es) s = deliver rt es (updateCurrentSessionState rt e s)"

subsection \<open>Resolution\<close>

text \<open>
  \<open>setResolution\<close> returns nothing; the model returns the lines written to the warning
  stream and the new state.
\<close>

definition setResolution :: "int \<times> int \<Rightarrow> hmd \<Rightarrow> string list \<times> hmd" where
  "setResolution resolution s =
     (if \<not> isSessionRunning s then ([], s\<lparr>m_resolution := resolution\<rparr>)
      else ([''Cannot change the resolution: XR session is already running.''], s))"

definition getResolution :: "hmd \<Rightarrow> int \<times> int" where
  "getResolution s = m_resolution s"

subsection \<open>The frame loop\<close>

text \<open>
  The outcome of a function that reads the arrays of the class: \<open>Undefined\<close> when it reads
  an element that was never allocated or never written, which C++ leaves undefined.
\<close>

datatype 'a outcome = Undefined | Returns (returned: 'a)

definition slot :: "'a option list \<Rightarrow> nat \<Rightarrow> 'a option" where
  "slot xs i = (if i < length xs then xs ! i else None)"

text \<open>
  \<open>xrLocateViews\<close> writes the views it locates into the array it is given; the array keeps
  its length.
\<close>

definition located :: "XrView option list \<Rightarrow> XrView list \<Rightarrow> XrView option list" where
  "located old new = map Some (take (length old) new) @ drop (length new) old"

text \<open>
  \<open>waitNextFrame\<close>. The frame state is cleared and then filled by \<open>xrWaitFrame\<close>;
  \<open>r_frame\<close> is what the call leaves in it. The time conversion is the one of the
  \<open>XR_USE_TIMESPEC\<close> build; its value is not used.
\<close>

definition waitNextFrame :: "runtime \<Rightarrow> hmd \<Rightarrow> bool \<times> hmd" where
  "waitNextFrame rt s0 =
     (let (w, s) = call rt XrWaitFrame s0;
          s1 = s\<lparr>m_lastFrameState := r_frame w\<rparr> in
      if \<not> xrCheck w then (False, s1)
      else
        (let (t, s2) = call rt XrConvertTimeToXrTime s1;
             (l, s3) = call rt XrLocateViews s2;
             s4 = s3\<lparr>m_viewCount := r_count l, views := located (views s3) (r_views l)\<rparr> in
         if \<not> xrCheck l then (False, s4) else (True, s4)))"

definition XR_TRUE :: nat where
  "XR_TRUE = 1"

definition shouldRender :: "hmd \<Rightarrow> bool" where
  "shouldRender s = (shouldRenderFlag (m_lastFrameState s) = XR_TRUE)"

text \<open>\<open>submitFrame()\<close>, the empty submission.\<close>

definition submitFrame :: "runtime \<Rightarrow> hmd \<Rightarrow> bool \<times> hmd" where
  "submitFrame rt s0 =
     (let (b, s1) = call rt XrBeginFrame s0 in
      if \<not> xrCheck b then (False, s1)
      else
        (let (e, s2) = call rt (XrEndFrame 0) s1 in
         if \<not> xrCheck e then (False, s2) else (True, s2)))"

text \<open>Float division.\<close>

definition float_div :: "real \<Rightarrow> real \<Rightarrow> cfloat" where
  "float_div x d =
     (if d = 0 then (if x = 0 then NaN else if 0 < x then PlusInfinity else MinusInfinity)
      else Finite (x / d))"

text \<open>
  \<open>updateRefreshReport\<close>. \<open>now_ns\<close> is what the time conversion leaves in it (0 when the
  conversion does nothing). \<open>duration_cast\<close> to milliseconds truncates towards zero. The
  two readings of \<open>high_resolution_clock\<close> are two interactions.
\<close>

definition updateRefreshReport :: "runtime \<Rightarrow> hmd \<Rightarrow> hmd" where
  "updateRefreshReport rt s0 =
     (let (t, s1) = call rt XrConvertTimeToXrTime s0;
          now_ns = r_time t;
          cur = m_currentFrameRefreshReport s1;
          cur1 = (if predictedDisplayTime (m_lastFrameState s1) - now_ns < 0
                  then cur\<lparr>nbMissedFrames := nbMissedFrames cur + 1\<rparr> else cur);
          cur2 = cur1\<lparr>totalRenderedFrames := totalRenderedFrames cur1 + 1,
                      expectedFramerate :=
                        float_div 1000000000
                          (real_of_int (predictedDisplayPeriod (m_lastFrameState s1)))\<rparr>;
          s2 = s1\<lparr>m_currentFrameRefreshReport := cur2\<rparr> in
      if totalRenderedFrames cur2 = 100 then
        (let (c1, s3) = call rt ClockNow s2;
             ms = (r_time c1 - firstFrameTimestamp cur2) sdiv 1000000;
             cur3 = cur2\<lparr>measuredFramerate :=
                           float_div (1000 * real (unat (totalRenderedFrames cur2)))
                             (real_of_int ms)\<rparr>;
             (c2, s4) = call rt ClockNow s3 in
         s4\<lparr>m_lastFrameRefreshReport := cur3,
            m_currentFrameRefreshReport :=
              \<lparr>nbMissedFrames = 0, totalRenderedFrames = 0, expectedFramerate = Finite 0,
               measuredFramerate = Finite 0, firstFrameTimestamp = r_time c2\<rparr>\<rparr>)
      else s2)"

text \<open>
  The body of the loop over the views in \<open>submitFrame(RenderFunc)\<close>. The boolean tells
  whether the loop goes on (\<open>False\<close> is \<open>break\<close>).
\<close>

definition renderView :: "runtime \<Rightarrow> nat \<Rightarrow> hmd \<Rightarrow> (bool \<times> hmd) outcome" where
  "renderView rt i s0 =
     (case slot (m_swapchains s0) i of
        None \<Rightarrow> Undefined
      | Some sc \<Rightarrow>
          (let (a, s1) = call rt (XrAcquireSwapchainImage sc) s0 in
           if \<not> xrCheck a then Returns (False, s1)
           else
             (let (w, s2) = call rt (XrWaitSwapchainImage sc) s1 in
              if \<not> xrCheck w then Returns (False, s2)
              else
                (case (slot (views s2) i, slot (m_projectionViews s2) i,
                       Option.bind (slot (m_swapchainsImages s2) i) (\<lambda>textures. slot textures (r_index a))) of
                   (Some v, Some pv, Some texture) \<Rightarrow>
                     (let s3 = s2\<lparr>m_projectionViews :=
                                   (m_projectionViews s2)
                                     [i := Some (pv\<lparr>pv_pose := Some (pose v), pv_fov := Some (fov v)\<rparr>)]\<rparr>;
                          s4 = invoke (RenderFunc i texture) s3;
                          (r, s5) = call rt (XrReleaseSwapchainImage sc) s4 in
                      Returns (xrCheck r, s5))
                 | _ \<Rightarrow> Undefined))))"

function renderViews :: "runtime \<Rightarrow> nat \<Rightarrow> hmd \<Rightarrow> hmd outcome" where
  "renderViews rt i s =
     (if i < m_viewCount s then
        (case renderView rt i s of
           Undefined \<Rightarrow> Undefined
         | Returns (continue, s') \<Rightarrow> if continue then renderViews rt (i + 1) s' else Returns s')
      else Returns s)"
  by pat_completeness auto
termination
proof (relation "measure (\<lambda>(rt, i, s). m_viewCount s - i)", goal_cases)
  case 1
  show ?case by simp
next
  case (2 rt i s x2 continue s')
  then have "m_viewCount s' = m_viewCount s"
    by (auto simp: renderView_def call_def invoke_def Let_def
             split: option.splits if_splits prod.splits)
  with 2 show ?case by simp
qed

declare renderViews.simps [simp del]

text \<open>\<open>submitFrame(RenderFunc renderFunc)\<close>. The callback is taken to be callable.\<close>

definition submitFrame_RenderFunc :: "runtime \<Rightarrow> hmd \<Rightarrow> (bool \<times> hmd) outcome" where
  "submitFrame_RenderFunc rt s0 =
     (if \<not> shouldRender s0 then Returns (True, snd (submitFrame rt s0))
      else
        (let (b, s1) = call rt XrBeginFrame s0 in
         if \<not> xrCheck b then Returns (False, s1)
         else
           (case renderViews rt 0 s1 of
              Undefined \<Rightarrow> Undefined
            | Returns s2 \<Rightarrow>
                (let s3 = updateRefreshReport rt s2;
                     (e, s4) = call rt (XrEndFrame 1) s3 in
                 if \<not> xrCheck e then Returns (False, s4) else Returns (True, s4)))))"

subsection \<open>Polling the runtime\<close>

text \<open>
  The switch over the event type in \<open>pollEvents\<close>. The case of a pending instance loss has
  no \<open>break\<close> and falls into the case of a session state change, which reads the field
  \<open>state\<close> of the same buffer; \<open>r_event_state\<close> is what the buffer holds there.
\<close>

definition handleEvent :: "runtime \<Rightarrow> xr_response \<Rightarrow> hmd \<Rightarrow> hmd" where
  "handleEvent rt ev s =
     (case r_event_type ev of
        XR_TYPE_EVENT_DATA_INSTANCE_LOSS_PENDING \<Rightarrow>
          (let (d, s1) = call rt XrDestroyInstance s;
               s2 = (if \<not> xrCheck d then s1\<lparr>m_status := FAILURE\<rparr> else s1) in
           updateCurrentSessionState rt (r_event_state ev) s2)
      | XR_TYPE_EVENT_DATA_SESSION_STATE_CHANGED \<Rightarrow>
          updateCurrentSessionState rt (r_event_state ev) s
      | XR_TYPE_EVENT_DATA_INTERACTION_PROFILE_CHANGED \<Rightarrow> s
      | XR_TYPE_EVENT_DATA_other \<Rightarrow> s)"

text \<open>
  One activation of \<open>pollEvents\<close> up to its last statement: the boolean is
  \<open>keepPolling\<close>.
\<close>

definition pollOnce :: "runtime \<Rightarrow> hmd \<Rightarrow> bool \<times> hmd" where
  "pollOnce rt s0 =
     (let (p, s1) = call rt XrPollEvent s0;
          s2 = (if r_result p = XR_SUCCESS then handleEvent rt p s1 else s1);
          keepPolling = (m_status s2 = BEGINNING \<or> m_status s2 = ENDING);
          s3 = (if m_status s2 = BEGINNING
                then snd (submitFrame rt (snd (waitNextFrame rt s2))) else s2) in
      (keepPolling, s3))"

text \<open>\<open>pollEvents\<close> calls itself while the status is transitory; nothing bounds the number of calls.\<close>

partial_function (option) pollEvents :: "runtime \<Rightarrow> hmd \<Rightarrow> (bool \<times> hmd) option" where
  "pollEvents rt s =
     (case pollOnce rt s of
        (keepPolling, s') \<Rightarrow>
          if keepPolling then pollEvents rt s' else Some (m_status s' \<noteq> FAILURE, s'))"

declare pollEvents.simps [code]



text \<open>The loop \<open>while (isSessionRunning()) pollEvents();\<close> of \<open>closeSession\<close>.\<close>

partial_function (option) pollWhileRunning :: "runtime \<Rightarrow> hmd \<Rightarrow> hmd option" where
  "pollWhileRunning rt s =
     (if isSessionRunning s then
        Option.bind (pollEvents rt s) (\<lambda>(polled, s'). pollWhileRunning rt s')
      else Some s)"

declare pollWhileRunning.simps [code]

definition closeSession :: "runtime \<Rightarrow> hmd \<Rightarrow> (bool \<times> hmd) option" where
  "closeSession rt s0 =
     (if m_status s0 = IDLE then
        (let (d, s1) = call rt XrDestroySession s0;
             s2 = (if \<not> xrCheck d then s1\<lparr>m_status := FAILURE\<rparr> else s1);
             s3 = s2\<lparr>m_session := XR_NULL_HANDLE, m_status := STOPPED\<rparr> in
         Some (m_status s3 \<noteq> STOPPED, s3))
      else if m_status s0 \<noteq> STOPPED then
        (let (e, s1) = call rt XrRequestExitSession s0 in
         if \<not> xrCheck e then Some (False, s1\<lparr>m_status := FAILURE\<rparr>)
         else map_option (\<lambda>s2. (m_status s2 \<noteq> STOPPED, s2)) (pollWhileRunning rt s1))
      else Some (m_status s0 \<noteq> STOPPED, s0))"

subsection \<open>Starting a session\<close>














subsection \<open>Pose and field of view\<close>

text \<open>
  Eigen vectors are tuples of reals; a quaternion is the tuple (w, x, y, z) of the arguments
  of its constructor. An accessor returns the lines it writes to \<open>stderr\<close> and its value.
\<close>

definition eyeToViewIndex :: "Eye \<Rightarrow> nat" where
  "eyeToViewIndex eye = (case eye of LEFT \<Rightarrow> 0 | RIGHT \<Rightarrow> 1)"

definition eyeToString :: "Eye \<Rightarrow> string" where
  "eyeToString eye = (case eye of LEFT \<Rightarrow> ''LEFT'' | RIGHT \<Rightarrow> ''RIGHT'')"

definition no_view :: "Eye \<Rightarrow> string" where
  "no_view eye = ''View for '' @ eyeToString eye @ '' eye does not exist''"

text \<open>
  \<open>std::atan2\<close> and \<open>std::sqrt\<close> on reals. The arguments of the two square roots are
  not negative for the unit quaternions a runtime delivers; for a negative argument the
  C++ function yields a NaN, which the model leaves out.
\<close>

definition atan2 :: "real \<Rightarrow> real \<Rightarrow> real" where
  "atan2 y x =
     (if 0 < x then arctan (y / x)
      else if x < 0 then (if 0 \<le> y then arctan (y / x) + pi else arctan (y / x) - pi)
      else if 0 < y then pi / 2 else if y < 0 then - pi / 2 else 0)"

definition quaternionToEulerAngles :: "XrQuaternionf \<Rightarrow> real \<times> real \<times> real" where
  "quaternionToEulerAngles q =
     (let sinr_cosp = 2 * (q_w q * q_x q + q_y q * q_z q);
          cosr_cosp = 1 - 2 * (q_x q * q_x q + q_y q * q_y q);
          roll = atan2 sinr_cosp cosr_cosp;
          sinp = sqrt (1 + 2 * (q_w q * q_y q - q_x q * q_z q));
          cosp = sqrt (1 - 2 * (q_w q * q_y q - q_x q * q_z q));
          pitch = 2 * atan2 sinp cosp - pi / 2;
          siny_cosp = 2 * (q_w q * q_z q + q_x q * q_y q);
          cosy_cosp = 1 - 2 * (q_y q * q_y q + q_z q * q_z q);
          yaw = atan2 siny_cosp cosy_cosp in
      (roll, pitch, yaw))"

definition radianToDegree :: "real \<Rightarrow> real" where
  "radianToDegree v = v * 180 / pi"

definition getPoseOrientation :: "hmd \<Rightarrow> Eye \<Rightarrow> AngleUnit \<Rightarrow> (string list \<times> real \<times> real \<times> real) outcome" where
  "getPoseOrientation s eye unit =
     (let viewIndex = eyeToViewIndex eye in
      if viewIndex \<ge> m_viewCount s then Returns ([no_view eye], (0, 0, 0))
      else
        (case slot (views s) viewIndex of
           None \<Rightarrow> Undefined
         | Some v \<Rightarrow>
             (let (roll, pitch, yaw) = quaternionToEulerAngles (orientation (pose v)) in
              Returns ([], if unit = RADIAN then (roll, pitch, yaw)
                           else (radianToDegree roll, radianToDegree pitch, radianToDegree yaw)))))"

text \<open>
  \<open>getPoseQuaternion\<close> returns \<open>Quaternionf()\<close> when the view does not exist. The default
  constructor of an Eigen quaternion leaves the four coefficients uninitialised; the
  parameter \<open>uninitialised\<close> is what they hold.
\<close>

definition getPoseQuaternion ::
    "real \<times> real \<times> real \<times> real \<Rightarrow> hmd \<Rightarrow> Eye \<Rightarrow> (string list \<times> real \<times> real \<times> real \<times> real) outcome" where
  "getPoseQuaternion uninitialised s eye =
     (let viewIndex = eyeToViewIndex eye in
      if viewIndex \<ge> m_viewCount s then Returns ([no_view eye], uninitialised)
      else
        (case slot (views s) viewIndex of
           None \<Rightarrow> Undefined
         | Some v \<Rightarrow>
             (let q = orientation (pose v) in Returns ([], (q_w q, q_x q, q_y q, q_z q)))))"

definition getPosePosition :: "hmd \<Rightarrow> Eye \<Rightarrow> (string list \<times> real \<times> real \<times> real) outcome" where
  "getPosePosition s eye =
     (let viewIndex = eyeToViewIndex eye in
      if viewIndex \<ge> m_viewCount s then Returns ([no_view eye], (0, 0, 0))
      else
        (case slot (views s) viewIndex of
           None \<Rightarrow> Undefined
         | Some v \<Rightarrow>
             (let p = position (pose v) in Returns ([], (v_x p, v_y p, v_z p)))))"

definition getFieldOfView :: "hmd \<Rightarrow> Eye \<Rightarrow> AngleUnit \<Rightarrow> (string list \<times> real \<times> real \<times> real \<times> real) outcome" where
  "getFieldOfView s eye unit =
     (let viewIndex = eyeToViewIndex eye in
      if viewIndex \<ge> m_viewCount s then Returns ([no_view eye], (0, 0, 0, 0))
      else
        (case slot (views s) viewIndex of
           None \<Rightarrow> Undefined
         | Some v \<Rightarrow>
             (let f = fov v in
              Returns ([], if unit = RADIAN then (angleLeft f, angleRight f, angleDown f, angleUp f)
                           else (radianToDegree (angleLeft f), radianToDegree (angleRight f),
                                 radianToDegree (angleDown f), radianToDegree (angleUp f))))))"

definition getScreenCenter :: "hmd \<Rightarrow> Eye \<Rightarrow> (string list \<times> cfloat \<times> cfloat) outcome" where
  "getScreenCenter s eye =
     (let viewIndex = eyeToViewIndex eye in
      if viewIndex \<ge> m_viewCount s then Returns ([no_view eye], (Finite 0, Finite 0))
      else
        (case slot (views s) viewIndex of
           None \<Rightarrow> Undefined
         | Some v \<Rightarrow>
             (let tanLeft = tan \<bar>angleLeft (fov v)\<bar>;
                  tanRight = tan \<bar>angleRight (fov v)\<bar>;
                  tanUp = tan \<bar>angleUp (fov v)\<bar>;
                  tanDown = tan \<bar>angleDown (fov v)\<bar>;
                  centerX = float_div tanLeft (tanLeft + tanRight);
                  centerY = float_div tanDown (tanDown + tanUp) in
              Returns ([], (centerX, centerY)))))"

subsection \<open>Objects and runtimes for concrete runs\<close>

text \<open>
  The object after its constructor. \<open>m_lastFrameState\<close> has no initialiser: the parameter
  is what it holds. The reports start from their member initialisers, the time stamp at the
  clock's epoch.
\<close>

definition empty_report :: FrameRefreshReport where
  "empty_report = \<lparr>nbMissedFrames = 0, totalRenderedFrames = 0, expectedFramerate = Finite 0,
     measuredFramerate = Finite 0, firstFrameTimestamp = 0\<rparr>"

definition OpenXRHMD :: "XrFrameState \<Rightarrow> hmd" where
  "OpenXRHMD uninitialised =
     \<lparr>m_lastFrameState = uninitialised, m_currentState = XR_SESSION_STATE_UNKNOWN,
      m_status = STOPPED, m_resolution = (0, 0), m_playSpace = XR_NULL_HANDLE,
      m_instance = XR_NULL_HANDLE, m_session = XR_NULL_HANDLE, m_viewCount = 0,
      m_viewConfigViews = [], m_projectionViews = [], views = [], m_swapchains = [],
      m_swapchainsLengths = [], m_swapchainsImages = [],
      m_lastFrameRefreshReport = empty_report, m_currentFrameRefreshReport = empty_report,
      m_idleCallback = False, m_visibleCallback = False, m_focusedCallback = False,
      calls = []\<rparr>"

definition no_frame :: XrFrameState where
  "no_frame = \<lparr>predictedDisplayTime = 0, predictedDisplayPeriod = 0, shouldRenderFlag = 0\<rparr>"

text \<open>
  A runtime that answers every poll with a change of the session to \<open>state\<close>, refuses the
  calls listed in \<open>refused\<close> with \<open>XR_ERROR_RUNTIME_FAILURE\<close> and accepts all others. It
  runs at 90 Hz and its clock stands at 1000 ns.
\<close>

definition accepted :: xr_response where
  "accepted = \<lparr>r_result = 0, r_handle = 7, r_count = 2, r_formats = [35907, 32856],
     r_images = [101, 102], r_index = 0,
     r_event_type = XR_TYPE_EVENT_DATA_SESSION_STATE_CHANGED,
     r_event_state = XR_SESSION_STATE_UNKNOWN,
     r_frame = \<lparr>predictedDisplayTime = 5000, predictedDisplayPeriod = 11111111,
                shouldRenderFlag = 1\<rparr>,
     r_views = [], r_time = 1000\<rparr>"

definition world :: "XrSessionState \<Rightarrow> xr_call list \<Rightarrow> runtime" where
  "world state refused t =
     accepted\<lparr>r_result := (if last t \<in> set refused then - 2 else 0), r_event_state := state\<rparr>"

text \<open>A view with a symmetric field of view.\<close>

definition symmetric_view :: XrView where
  "symmetric_view =
     \<lparr>pose = \<lparr>orientation = \<lparr>q_x = 0, q_y = 0, q_z = 0, q_w = 1\<rparr>,
              position = \<lparr>v_x = 0, v_y = 0, v_z = 0\<rparr>\<rparr>,
      fov = \<lparr>angleLeft = - (3 / 4), angleRight = 3 / 4, angleUp = 3 / 4, angleDown = - (3 / 4)\<rparr>\<rparr>"




text \<open>An object with a running session, two views and two images per swapchain.\<close>

definition stereo_hmd :: hmd where
  "stereo_hmd =
     (OpenXRHMD \<lparr>predictedDisplayTime = 5000, predictedDisplayPeriod = 11111111,
                 shouldRenderFlag = 1\<rparr>)
       \<lparr>m_status := SYNCHRONIZED, m_resolution := (1832, 1920), m_playSpace := 8, m_instance := 6,
        m_session := 7, m_viewCount := 2, m_viewConfigViews := [Some 1, Some 1],
        m_projectionViews :=
          [Some \<lparr>pv_swapchain = Some 11, pv_extent = (1832, 1920), pv_pose = None, pv_fov = None\<rparr>,
           Some \<lparr>pv_swapchain = Some 12, pv_extent = (1832, 1920), pv_pose = None, pv_fov = None\<rparr>],
        views := [Some symmetric_view, Some symmetric_view],
        m_swapchains := [Some 11, Some 12], m_swapchainsLengths := [Some 2, Some 2],
        m_swapchainsImages := [Some [Some 101, Some 102], Some [Some 201, Some 202]]\<rparr>"

subsection \<open>Notions used in the statements\<close>

text \<open>The calls issued between two states.\<close>

definition issued :: "hmd \<Rightarrow> hmd \<Rightarrow> xr_call list" where
  "issued s s' = drop (length (calls s)) (calls s')"

text \<open>
  One frame counted into a report, in the words of the specification: the total goes up by
  one, the missed frames go up by one when the predicted display time lies before \<open>now\<close>,
  and the expected rate is a second divided by the predicted display period.
\<close>

definition counted :: "FrameRefreshReport \<Rightarrow> XrFrameState \<Rightarrow> int \<Rightarrow> FrameRefreshReport" where
  "counted report frame now =
     report\<lparr>nbMissedFrames :=
              (if predictedDisplayTime frame < now then nbMissedFrames report + 1
               else nbMissedFrames report),
            totalRenderedFrames := totalRenderedFrames report + 1,
            expectedFramerate :=
              float_div 1000000000 (real_of_int (predictedDisplayPeriod frame))\<rparr>"


definition isCreateSwapchain :: "xr_call \<Rightarrow> bool" where
  "isCreateSwapchain c = (case c of XrCreateSwapchain f n r \<Rightarrow> True | _ \<Rightarrow> False)"


text \<open>The handles that the runtime has returned from \<open>xrCreateSwapchain\<close>, call by call.\<close>

definition created_handles :: "(xr_call \<times> xr_response) list \<Rightarrow> nat option list" where
  "created_handles rs =
     map (\<lambda>(c, r). Some (r_handle r)) (filter (\<lambda>(c, r). isCreateSwapchain c) rs)"

text \<open>
  The answers to \<open>xrEnumerateSwapchainImages\<close>, two by two: the call that asks for the
  number of images and the call that fetches them.
\<close>

fun pairs :: "'a list \<Rightarrow> ('a \<times> 'a) list" where
  "pairs (a # b # xs) = (a, b) # pairs xs"
| "pairs xs = []"




text \<open>
  The view count after the answers \<open>rs\<close>, starting from \<open>n\<close>: the count that the last
  \<open>xrLocateViews\<close> has reported.
\<close>

definition located_count :: "nat \<Rightarrow> (xr_call \<times> xr_response) list \<Rightarrow> nat" where
  "located_count n rs = foldl (\<lambda>n (c, r). if c = XrLocateViews then r_count r else n) n rs"




text \<open>
  The arrays that \<open>submitFrame(RenderFunc)\<close> reads hold a written element for every view,
  and every image index the runtime hands out lies within the images of each swapchain.
\<close>

definition ready :: "runtime \<Rightarrow> hmd \<Rightarrow> bool" where
  "ready rt s =
     (\<forall>i<m_viewCount s.
        slot (m_swapchains s) i \<noteq> None \<and> slot (views s) i \<noteq> None \<and>
        slot (m_projectionViews s) i \<noteq> None \<and>
        (\<exists>textures. slot (m_swapchainsImages s) i = Some textures \<and>
                     (\<forall>h. slot textures (r_index (rt h)) \<noteq> None)))"

definition isEndFrame :: "xr_call \<Rightarrow> bool" where
  "isEndFrame c = (case c of XrEndFrame n \<Rightarrow> True | _ \<Rightarrow> False)"

text \<open>
  The runtime states for which \<open>updateCurrentSessionState\<close> neither sets the status nor
  calls the runtime.
\<close>

definition inert :: "XrSessionState \<Rightarrow> bool" where
  "inert e =
     (case e of
        XR_SESSION_STATE_IDLE \<Rightarrow> False
      | XR_SESSION_STATE_SYNCHRONIZED \<Rightarrow> False
      | XR_SESSION_STATE_READY \<Rightarrow> False
      | XR_SESSION_STATE_STOPPING \<Rightarrow> False
      | XR_SESSION_STATE_LOSS_PENDING \<Rightarrow> False
      | XR_SESSION_STATE_EXITING \<Rightarrow> False
      | _ \<Rightarrow> True)"

section \<open>Properties\<close>

subsection \<open>Helper facts about the frame loop\<close>

lemma renderView_calls:
  assumes "renderView rt i s = Returns (k, s')"
  shows "\<exists>new. calls s' = calls s @ new \<and> filter isEndFrame new = []"
  using assms
  by (auto simp: renderView_def call_def invoke_def Let_def isEndFrame_def
           split: option.splits if_splits prod.splits)

lemma renderView_reports:
  assumes "renderView rt i s = Returns (k, s')"
  shows "m_currentFrameRefreshReport s' = m_currentFrameRefreshReport s \<and>
         m_lastFrameRefreshReport s' = m_lastFrameRefreshReport s \<and>
         m_lastFrameState s' = m_lastFrameState s"
  using assms
  by (auto simp: renderView_def call_def invoke_def Let_def
           split: option.splits if_splits prod.splits)

lemma renderViews_calls:
  "renderViews rt i s = Returns s' \<Longrightarrow> \<exists>new. calls s' = calls s @ new \<and> filter isEndFrame new = []"
proof (induction rt i s arbitrary: s' rule: renderViews.induct)
  case (1 rt i s)
  show ?case
  proof (cases "i < m_viewCount s")
    case False
    with "1.prems" have "s' = s" by (simp add: renderViews.simps)
    then show ?thesis by simp
  next
    case True
    show ?thesis
    proof (cases "renderView rt i s")
      case Undefined
      with True "1.prems" show ?thesis by (simp add: renderViews.simps)
    next
      case (Returns r)
      obtain k s1 where r: "r = (k, s1)" by (cases r)
      from renderView_calls Returns r obtain new1 where
        n1: "calls s1 = calls s @ new1" "filter isEndFrame new1 = []" by blast
      show ?thesis
      proof (cases k)
        case False
        with True Returns r "1.prems" have "s' = s1" by (simp add: renderViews.simps)
        with n1 show ?thesis by blast
      next
        case k: True
        with True Returns r "1.prems" have "renderViews rt (i + 1) s1 = Returns s'"
          by (simp add: renderViews.simps)
        from "1.IH" [OF True Returns r [symmetric] k this] obtain new2 where
          "calls s' = calls s1 @ new2" "filter isEndFrame new2 = []" by blast
        with n1 have "calls s' = calls s @ (new1 @ new2) \<and> filter isEndFrame (new1 @ new2) = []"
          by simp
        then show ?thesis by blast
      qed
    qed
  qed
qed

lemma renderViews_reports:
  "renderViews rt i s = Returns s' \<Longrightarrow>
     m_currentFrameRefreshReport s' = m_currentFrameRefreshReport s \<and>
     m_lastFrameRefreshReport s' = m_lastFrameRefreshReport s \<and>
     m_lastFrameState s' = m_lastFrameState s"
proof (induction rt i s arbitrary: s' rule: renderViews.induct)
  case (1 rt i s)
  show ?case
  proof (cases "i < m_viewCount s")
    case False
    with "1.prems" have "s' = s" by (simp add: renderViews.simps)
    then show ?thesis by simp
  next
    case True
    show ?thesis
    proof (cases "renderView rt i s")
      case Undefined
      with True "1.prems" show ?thesis by (simp add: renderViews.simps)
    next
      case (Returns r)
      obtain k s1 where r: "r = (k, s1)" by (cases r)
      note n1 = renderView_reports [OF Returns [unfolded r]]
      show ?thesis
      proof (cases k)
        case False
        with True Returns r "1.prems" have "s' = s1" by (simp add: renderViews.simps)
        with n1 show ?thesis by simp
      next
        case k: True
        with True Returns r "1.prems" have "renderViews rt (i + 1) s1 = Returns s'"
          by (simp add: renderViews.simps)
        from "1.IH" [OF True Returns r [symmetric] k this] n1 show ?thesis by simp
      qed
    qed
  qed
qed

lemma updateRefreshReport_calls:
  "calls (updateRefreshReport rt s) =
     calls s @ (if totalRenderedFrames (m_currentFrameRefreshReport s) + 1 = 100
                then [XrConvertTimeToXrTime, ClockNow, ClockNow] else [XrConvertTimeToXrTime])"
  by (simp add: updateRefreshReport_def call_def Let_def)

subsection \<open>Session status\<close>

lemma update_status_cases:
  "m_status (updateCurrentSessionState rt e s) =
     (case e of
        XR_SESSION_STATE_IDLE \<Rightarrow> IDLE
      | XR_SESSION_STATE_SYNCHRONIZED \<Rightarrow> SYNCHRONIZED
      | XR_SESSION_STATE_READY \<Rightarrow>
          if m_status s = BEGINNING then BEGINNING
          else if xrCheck (rt (calls s @ [XrBeginSession])) then BEGINNING else FAILURE
      | XR_SESSION_STATE_STOPPING \<Rightarrow>
          if m_status s = ENDING then ENDING
          else if xrCheck (rt (calls s @ [XrEndSession])) then ENDING else FAILURE
      | XR_SESSION_STATE_LOSS_PENDING \<Rightarrow>
          if xrCheck (rt (calls s @ [XrDestroySession])) then STOPPED else FAILURE
      | XR_SESSION_STATE_EXITING \<Rightarrow>
          if xrCheck (rt (calls s @ [XrDestroySession])) then STOPPED else FAILURE
      | _ \<Rightarrow> m_status s)"
  by (cases e) (simp_all add: updateCurrentSessionState_def call_def invoke_def Let_def)

lemma deliver_inert:
  "list_all inert es \<Longrightarrow> m_status (deliver rt es s) = m_status s"
  by (induction es arbitrary: s)
     (auto simp: update_status_cases inert_def split: XrSessionState.splits)

text \<open>
  C1, as stated, fails: an object whose status is \<open>FAILURE\<close> and that is handed the
  runtime state \<open>IDLE\<close> has the status \<open>IDLE\<close> afterwards.
\<close>

theorem failure_not_absorbing:
  "m_status ((OpenXRHMD no_frame)\<lparr>m_status := FAILURE\<rparr>) = FAILURE \<and>
   m_status (deliver (world XR_SESSION_STATE_IDLE []) [XR_SESSION_STATE_IDLE]
               ((OpenXRHMD no_frame)\<lparr>m_status := FAILURE\<rparr>)) \<noteq> FAILURE"
  by (simp add: updateCurrentSessionState_def OpenXRHMD_def Let_def)

text \<open>
  C1, amended: \<open>isSessionRunning\<close> is false whenever the status is \<open>FAILURE\<close> or
  \<open>STOPPED\<close>. The status \<open>FAILURE\<close> survives every sequence of state changes to
  \<open>VISIBLE\<close>, \<open>FOCUSED\<close>, \<open>UNKNOWN\<close>, \<open>MAX_ENUM\<close> or a value without a name, and a
  change to \<open>READY\<close>, \<open>STOPPING\<close>, \<open>LOSS_PENDING\<close> or \<open>EXITING\<close> whose runtime call
  fails; a change to \<open>IDLE\<close> or \<open>SYNCHRONIZED\<close>, or one of the four others whose runtime
  call succeeds, replaces it by \<open>IDLE\<close>, \<open>SYNCHRONIZED\<close>, \<open>BEGINNING\<close>, \<open>ENDING\<close> or
  \<open>STOPPED\<close>.
\<close>

theorem failure_status_events:
  "(m_status s = FAILURE \<or> m_status s = STOPPED \<longrightarrow> \<not> isSessionRunning s) \<and>
   (m_status s = FAILURE \<and> list_all inert es \<longrightarrow> m_status (deliver rt es s) = FAILURE) \<and>
   (m_status s = FAILURE \<longrightarrow>
      m_status (updateCurrentSessionState rt e s) =
        (case e of
           XR_SESSION_STATE_IDLE \<Rightarrow> IDLE
         | XR_SESSION_STATE_SYNCHRONIZED \<Rightarrow> SYNCHRONIZED
         | XR_SESSION_STATE_READY \<Rightarrow>
             if xrCheck (rt (calls s @ [XrBeginSession])) then BEGINNING else FAILURE
         | XR_SESSION_STATE_STOPPING \<Rightarrow>
             if xrCheck (rt (calls s @ [XrEndSession])) then ENDING else FAILURE
         | XR_SESSION_STATE_LOSS_PENDING \<Rightarrow>
             if xrCheck (rt (calls s @ [XrDestroySession])) then STOPPED else FAILURE
         | XR_SESSION_STATE_EXITING \<Rightarrow>
             if xrCheck (rt (calls s @ [XrDestroySession])) then STOPPED else FAILURE
         | _ \<Rightarrow> FAILURE))"
proof (intro conjI impI)
  assume "m_status s = FAILURE \<or> m_status s = STOPPED"
  then show "\<not> isSessionRunning s" by (auto simp: isSessionRunning_def)
next
  assume "m_status s = FAILURE \<and> list_all inert es"
  then show "m_status (deliver rt es s) = FAILURE" by (simp add: deliver_inert)
next
  assume "m_status s = FAILURE"
  then show "m_status (updateCurrentSessionState rt e s) =
        (case e of
           XR_SESSION_STATE_IDLE \<Rightarrow> IDLE
         | XR_SESSION_STATE_SYNCHRONIZED \<Rightarrow> SYNCHRONIZED
         | XR_SESSION_STATE_READY \<Rightarrow>
             if xrCheck (rt (calls s @ [XrBeginSession])) then BEGINNING else FAILURE
         | XR_SESSION_STATE_STOPPING \<Rightarrow>
             if xrCheck (rt (calls s @ [XrEndSession])) then ENDING else FAILURE
         | XR_SESSION_STATE_LOSS_PENDING \<Rightarrow>
             if xrCheck (rt (calls s @ [XrDestroySession])) then STOPPED else FAILURE
         | XR_SESSION_STATE_EXITING \<Rightarrow>
             if xrCheck (rt (calls s @ [XrDestroySession])) then STOPPED else FAILURE
         | _ \<Rightarrow> FAILURE)"
    by (simp add: update_status_cases split: XrSessionState.splits)
qed

theorem failure_status_events_witness:
  "m_status ((OpenXRHMD no_frame)\<lparr>m_status := FAILURE\<rparr>) = FAILURE \<and>
   list_all inert [XR_SESSION_STATE_VISIBLE, XR_SESSION_STATE_FOCUSED] \<and>
   \<not> isSessionRunning ((OpenXRHMD no_frame)\<lparr>m_status := FAILURE\<rparr>) \<and>
   m_status (deliver (world XR_SESSION_STATE_IDLE []) [XR_SESSION_STATE_VISIBLE, XR_SESSION_STATE_FOCUSED]
               ((OpenXRHMD no_frame)\<lparr>m_status := FAILURE\<rparr>)) = FAILURE \<and>
   m_status (updateCurrentSessionState (world XR_SESSION_STATE_IDLE []) XR_SESSION_STATE_READY
               ((OpenXRHMD no_frame)\<lparr>m_status := FAILURE\<rparr>)) = BEGINNING"
  using failure_status_events
          [of "(OpenXRHMD no_frame)\<lparr>m_status := FAILURE\<rparr>"
              "[XR_SESSION_STATE_VISIBLE, XR_SESSION_STATE_FOCUSED]"
              "world XR_SESSION_STATE_IDLE []" XR_SESSION_STATE_READY]
  by (simp add: inert_def OpenXRHMD_def world_def accepted_def xrCheck_def)

subsection \<open>Submitting a frame\<close>

text \<open>In a ready object \<open>submitFrame(RenderFunc)\<close> does not run into undefined behaviour.\<close>

lemma renderView_defined:
  assumes "ready rt s" and "i < m_viewCount s"
  shows "\<exists>k s'. renderView rt i s = Returns (k, s') \<and> ready rt s' \<and> m_viewCount s' = m_viewCount s"
proof -
  from assms obtain sc v pv textures where
    sl: "slot (m_swapchains s) i = Some sc" "slot (views s) i = Some v"
        "slot (m_projectionViews s) i = Some pv" "slot (m_swapchainsImages s) i = Some textures"
        "\<forall>h. slot textures (r_index (rt h)) \<noteq> None"
    unfolding ready_def by fastforce
  from sl(5) obtain texture where
    tx: "slot textures (r_index (rt (calls s @ [XrAcquireSwapchainImage sc]))) = Some texture"
    by fastforce
  have upd: "slot (xs[i := Some y]) j \<noteq> None" if "slot xs j \<noteq> None"
    for xs :: "ProjectionView option list" and y j
    using that by (cases "i = j") (auto simp: slot_def split: if_splits)
  have keep: "ready rt (s\<lparr>calls := cs\<rparr>)" for cs
    using assms(1) by (simp add: ready_def)
  have keep2: "ready rt (s\<lparr>m_projectionViews := (m_projectionViews s)[i := Some y], calls := cs\<rparr>)"
    for cs y
    using assms(1) upd by (simp add: ready_def)
  show ?thesis
    using sl(1-4) tx keep keep2
    by (auto simp: renderView_def call_def invoke_def Let_def)
qed

lemma renderViews_defined:
  "ready rt s \<Longrightarrow> renderViews rt i s \<noteq> Undefined"
proof (induction rt i s rule: renderViews.induct)
  case (1 rt i s)
  show ?case
  proof (cases "i < m_viewCount s")
    case False
    then show ?thesis by (simp add: renderViews.simps)
  next
    case True
    from renderView_defined [OF "1.prems" True] obtain k s1 where
      r: "renderView rt i s = Returns (k, s1)" and rd: "ready rt s1" by blast
    show ?thesis
    proof (cases k)
      case False
      with True r show ?thesis by (simp add: renderViews.simps)
    next
      case k: True
      from "1.IH" [OF True r refl k rd] True r k show ?thesis by (simp add: renderViews.simps)
    qed
  qed
qed

lemma submitFrame_RenderFunc_defined:
  assumes "ready rt s"
  shows "submitFrame_RenderFunc rt s \<noteq> Undefined"
proof -
  have "ready rt (snd (call rt XrBeginFrame s))"
    using assms by (simp add: ready_def call_def)
  from renderViews_defined [OF this] show ?thesis
    by (auto simp: submitFrame_RenderFunc_def call_def Let_def split: outcome.splits)
qed

text \<open>
  C2: whenever \<open>submitFrame(renderFunc)\<close> returns and its \<open>xrBeginFrame\<close> call has
  succeeded, the calls it has issued contain exactly one \<open>xrEndFrame\<close>, whether or not an
  acquire, wait or release has cut the loop over the views short.
\<close>

theorem submitFrame_RenderFunc_one_end_frame:
  assumes "submitFrame_RenderFunc rt s = Returns (b, s')"
    and "xrCheck (rt (calls s @ [XrBeginFrame]))"
  shows "length (filter isEndFrame (issued s s')) = 1"
proof (cases "shouldRender s")
  case False
  with assms have "s' = snd (submitFrame rt s)" by (simp add: submitFrame_RenderFunc_def)
  with assms(2) show ?thesis
    by (simp add: submitFrame_def call_def Let_def issued_def isEndFrame_def)
next
  case True
  define s1 where "s1 = snd (call rt XrBeginFrame s)"
  have c1: "calls s1 = calls s @ [XrBeginFrame]" by (simp add: s1_def call_def)
  from True assms obtain s2 where
    loop: "renderViews rt 0 s1 = Returns s2" and
    fin: "s' = snd (call rt (XrEndFrame 1) (updateRefreshReport rt s2))"
    by (auto simp: submitFrame_RenderFunc_def s1_def call_def Let_def
             split: outcome.splits if_splits)
  from renderViews_calls [OF loop] obtain new where
    new: "calls s2 = calls s1 @ new" "filter isEndFrame new = []" by blast
  have "calls s' = calls s @ [XrBeginFrame] @ new @
          (if totalRenderedFrames (m_currentFrameRefreshReport s2) + 1 = 100
           then [XrConvertTimeToXrTime, ClockNow, ClockNow] else [XrConvertTimeToXrTime]) @
          [XrEndFrame 1]"
    by (simp add: fin call_def updateRefreshReport_calls new c1)
  then show ?thesis using new(2) by (simp add: issued_def isEndFrame_def)
qed

text \<open>
  A run in which the wait for the image of the second view fails: the first view is
  rendered, the second is not, and the frame is ended once.
\<close>

theorem submitFrame_RenderFunc_one_end_frame_witness:
  "submitFrame_RenderFunc (world XR_SESSION_STATE_IDLE [XrWaitSwapchainImage 12]) stereo_hmd \<noteq> Undefined \<and>
   xrCheck (world XR_SESSION_STATE_IDLE [XrWaitSwapchainImage 12] (calls stereo_hmd @ [XrBeginFrame])) \<and>
   issued stereo_hmd
     (snd (returned (submitFrame_RenderFunc (world XR_SESSION_STATE_IDLE [XrWaitSwapchainImage 12])
                       stereo_hmd))) =
     [XrBeginFrame, XrAcquireSwapchainImage 11, XrWaitSwapchainImage 11, RenderFunc 0 101,
      XrReleaseSwapchainImage 11, XrAcquireSwapchainImage 12, XrWaitSwapchainImage 12,
      XrConvertTimeToXrTime, XrEndFrame 1] \<and>
   length (filter isEndFrame (issued stereo_hmd
     (snd (returned (submitFrame_RenderFunc (world XR_SESSION_STATE_IDLE [XrWaitSwapchainImage 12])
                       stereo_hmd))))) = 1"
proof -
  let ?rt = "world XR_SESSION_STATE_IDLE [XrWaitSwapchainImage 12]"
  let ?r = "submitFrame_RenderFunc ?rt stereo_hmd"
  have d: "?r \<noteq> Undefined" by code_simp
  then have r: "?r = Returns (fst (returned ?r), snd (returned ?r))" by (cases ?r) simp_all
  have b: "xrCheck (?rt (calls stereo_hmd @ [XrBeginFrame]))" by code_simp
  have t: "issued stereo_hmd (snd (returned ?r)) =
     [XrBeginFrame, XrAcquireSwapchainImage 11, XrWaitSwapchainImage 11, RenderFunc 0 101,
      XrReleaseSwapchainImage 11, XrAcquireSwapchainImage 12, XrWaitSwapchainImage 12,
      XrConvertTimeToXrTime, XrEndFrame 1]" by code_simp
  from d b t submitFrame_RenderFunc_one_end_frame [OF r b] show ?thesis by simp
qed

text \<open>
  C10: while \<open>shouldRender()\<close> is false, \<open>submitFrame(renderFunc)\<close> returns true with the
  state that the empty \<open>submitFrame()\<close> leaves, whatever the results of the runtime calls;
  the calls issued are \<open>xrBeginFrame\<close> and, when that succeeds, \<open>xrEndFrame\<close> without a
  layer, so the render callback is not invoked.
\<close>

theorem submitFrame_RenderFunc_skips_rendering:
  "\<not> shouldRender s \<Longrightarrow>
     submitFrame_RenderFunc rt s = Returns (True, snd (submitFrame rt s)) \<and>
     calls (snd (submitFrame rt s)) =
       calls s @ (if xrCheck (rt (calls s @ [XrBeginFrame])) then [XrBeginFrame, XrEndFrame 0]
                  else [XrBeginFrame])"
  by (simp add: submitFrame_RenderFunc_def submitFrame_def call_def Let_def)

theorem submitFrame_RenderFunc_skips_rendering_witness:
  "\<not> shouldRender (OpenXRHMD no_frame) \<and>
   submitFrame_RenderFunc (world XR_SESSION_STATE_IDLE [XrBeginFrame]) (OpenXRHMD no_frame) =
     Returns (True, snd (submitFrame (world XR_SESSION_STATE_IDLE [XrBeginFrame]) (OpenXRHMD no_frame))) \<and>
   calls (snd (submitFrame (world XR_SESSION_STATE_IDLE [XrBeginFrame]) (OpenXRHMD no_frame))) =
     [XrBeginFrame]"
  using submitFrame_RenderFunc_skips_rendering
          [of "OpenXRHMD no_frame" "world XR_SESSION_STATE_IDLE [XrBeginFrame]"]
  by (simp add: shouldRender_def OpenXRHMD_def no_frame_def XR_TRUE_def world_def accepted_def
        xrCheck_def)

subsection \<open>Starting a session\<close>











lemma created_handles_append [simp]:
  "created_handles (rs @ rs') = created_handles rs @ created_handles rs'"
  by (simp add: created_handles_def)




lemma length_pairs: "length (pairs xs) = length xs div 2"
  by (induction xs rule: pairs.induct) auto

lemma located_count_append [simp]:
  "located_count n (rs @ rs') = located_count (located_count n rs) rs'"
  by (simp add: located_count_def)


























subsection \<open>Closing the session\<close>

text \<open>
  Whenever \<open>closeSession\<close> returns true the session has failed, and whenever it leaves
  the session stopped it returns false.
\<close>

lemma pollWhileRunning_stops:
  assumes "pollWhileRunning rt s = Some s'"
  shows "\<not> isSessionRunning s'"
proof (rule pollWhileRunning.raw_induct [where P = "\<lambda>rt s s'. \<not> isSessionRunning s'", OF _ assms])
  fix f rt s s'
  assume IH: "\<And>rt s s'. f rt s = Some s' \<Longrightarrow> \<not> isSessionRunning s'"
    and step: "(if isSessionRunning s
                then Option.bind (pollEvents rt s) (\<lambda>(polled, s'). f rt s')
                else Some s) = Some s'"
  show "\<not> isSessionRunning s'"
  proof (cases "isSessionRunning s")
    case False
    with step show ?thesis by simp
  next
    case True
    with step obtain b s1 where "f rt s1 = Some s'"
      by (auto simp: bind_eq_Some_conv)
    then show ?thesis by (rule IH)
  qed
qed

lemma closeSession_result:
  assumes "closeSession rt s = Some (b, s')"
  shows "(b \<longrightarrow> m_status s' = FAILURE) \<and> (m_status s' = STOPPED \<longrightarrow> \<not> b)"
proof (cases "m_status s = IDLE")
  case True
  with assms show ?thesis by (auto simp: closeSession_def call_def Let_def)
next
  case idle: False
  show ?thesis
  proof (cases "m_status s = STOPPED")
    case True
    with idle assms show ?thesis by (auto simp: closeSession_def)
  next
    case False
    show ?thesis
    proof (cases "xrCheck (rt (calls s @ [XrRequestExitSession]))")
      case False
      with idle \<open>m_status s \<noteq> STOPPED\<close> assms show ?thesis
        by (auto simp: closeSession_def call_def Let_def)
    next
      case True
      with idle \<open>m_status s \<noteq> STOPPED\<close> assms
      have "pollWhileRunning rt (snd (call rt XrRequestExitSession s)) = Some s'"
        and "b = (m_status s' \<noteq> STOPPED)"
        by (auto simp: closeSession_def call_def Let_def)
      with pollWhileRunning_stops show ?thesis by (auto simp: isSessionRunning_def)
    qed
  qed
qed

text \<open>
  C6 does not hold of the code. Closing an idle session whose \<open>xrDestroySession\<close>
  succeeds ends in the status \<open>STOPPED\<close> and returns false; closing a synchronized
  session whose \<open>xrEndSession\<close> fails ends in the status \<open>FAILURE\<close> and returns true.
\<close>

theorem closeSession_returns:
  "closeSession (world XR_SESSION_STATE_EXITING [])
       ((OpenXRHMD no_frame)\<lparr>m_status := IDLE, m_session := 7\<rparr>) =
     Some (False, (OpenXRHMD no_frame)\<lparr>m_status := STOPPED, m_session := XR_NULL_HANDLE,
                                         calls := [XrDestroySession]\<rparr>) \<and>
   map_option fst (closeSession (world XR_SESSION_STATE_STOPPING [XrEndSession])
                    ((OpenXRHMD no_frame)\<lparr>m_status := SYNCHRONIZED, m_session := 7\<rparr>)) = Some True \<and>
   map_option (m_status \<circ> snd) (closeSession (world XR_SESSION_STATE_STOPPING [XrEndSession])
                    ((OpenXRHMD no_frame)\<lparr>m_status := SYNCHRONIZED, m_session := 7\<rparr>)) = Some FAILURE"
  by (simp add: closeSession_def pollWhileRunning.simps pollEvents.simps pollOnce_def handleEvent_def
        updateCurrentSessionState_def call_def Let_def OpenXRHMD_def world_def accepted_def xrCheck_def
        isSessionRunning_def XR_SUCCESS_def XR_NULL_HANDLE_def)

subsection \<open>Resolution\<close>

text \<open>
  C8: while a session is running \<open>setResolution\<close> leaves the object as it is, so that
  \<open>getResolution\<close> returns the value from before the call, and writes one warning; it has
  no result that could report a failure. While no session is running it stores the new
  value.
\<close>

theorem setResolution_session_running:
  "(isSessionRunning s \<longrightarrow>
      getResolution (snd (setResolution r s)) = getResolution s \<and>
      fst (setResolution r s) = [''Cannot change the resolution: XR session is already running.''] \<and>
      snd (setResolution r s) = s) \<and>
   (\<not> isSessionRunning s \<longrightarrow>
      getResolution (snd (setResolution r s)) = r \<and> fst (setResolution r s) = [])"
  by (simp add: setResolution_def getResolution_def)

theorem setResolution_session_running_witness:
  "isSessionRunning stereo_hmd \<and>
   getResolution (snd (setResolution (640, 480) stereo_hmd)) = (1832, 1920) \<and>
   \<not> isSessionRunning (OpenXRHMD no_frame) \<and>
   getResolution (snd (setResolution (640, 480) (OpenXRHMD no_frame))) = (640, 480)"
  using setResolution_session_running [of stereo_hmd "(640, 480)"]
        setResolution_session_running [of "OpenXRHMD no_frame" "(640, 480)"]
  by (simp add: isSessionRunning_def stereo_hmd_def OpenXRHMD_def getResolution_def)

subsection \<open>Pose and field of view\<close>

text \<open>
  C9: for a view whose field of view is symmetric, with angles strictly between 0 and
  \<open>\<pi>/2\<close> in magnitude, \<open>getScreenCenter\<close> returns (0.5, 0.5).
\<close>

theorem getScreenCenter_symmetric:
  assumes "eyeToViewIndex eye < m_viewCount s"
    and "slot (views s) (eyeToViewIndex eye) = Some v"
    and "angleLeft (fov v) = - angleRight (fov v)"
    and "angleUp (fov v) = - angleDown (fov v)"
    and "0 < \<bar>angleRight (fov v)\<bar>" "\<bar>angleRight (fov v)\<bar> < pi / 2"
    and "0 < \<bar>angleDown (fov v)\<bar>" "\<bar>angleDown (fov v)\<bar> < pi / 2"
  shows "getScreenCenter s eye = Returns ([], (Finite (1 / 2), Finite (1 / 2)))"
proof -
  have x: "0 < tan \<bar>angleRight (fov v)\<bar>" using assms(5,6) by (rule tan_gt_zero)
  have y: "0 < tan \<bar>angleDown (fov v)\<bar>" using assms(7,8) by (rule tan_gt_zero)
  have half: "t / (t + t) = 1 / 2" if "0 < t" for t :: real using that by simp
  show ?thesis
    using assms(1-4) x y by (simp add: getScreenCenter_def Let_def float_div_def half)
qed

theorem getScreenCenter_symmetric_witness:
  "eyeToViewIndex RIGHT < m_viewCount stereo_hmd \<and>
   slot (views stereo_hmd) (eyeToViewIndex RIGHT) = Some symmetric_view \<and>
   angleLeft (fov symmetric_view) = - angleRight (fov symmetric_view) \<and>
   angleUp (fov symmetric_view) = - angleDown (fov symmetric_view) \<and>
   0 < \<bar>angleRight (fov symmetric_view)\<bar> \<and> \<bar>angleRight (fov symmetric_view)\<bar> < pi / 2 \<and>
   0 < \<bar>angleDown (fov symmetric_view)\<bar> \<and> \<bar>angleDown (fov symmetric_view)\<bar> < pi / 2 \<and>
   getScreenCenter stereo_hmd RIGHT = Returns ([], (Finite (1 / 2), Finite (1 / 2)))"
proof -
  have i: "eyeToViewIndex RIGHT < m_viewCount stereo_hmd"
    by (simp add: eyeToViewIndex_def stereo_hmd_def OpenXRHMD_def)
  have v: "slot (views stereo_hmd) (eyeToViewIndex RIGHT) = Some symmetric_view"
    by (simp add: eyeToViewIndex_def stereo_hmd_def OpenXRHMD_def slot_def)
  have a: "angleLeft (fov symmetric_view) = - angleRight (fov symmetric_view)"
          "angleUp (fov symmetric_view) = - angleDown (fov symmetric_view)"
    by (simp_all add: symmetric_view_def)
  have r: "0 < \<bar>angleRight (fov symmetric_view)\<bar>" "\<bar>angleRight (fov symmetric_view)\<bar> < pi / 2"
    using pi_ge_two by (simp_all add: symmetric_view_def)
  have d: "0 < \<bar>angleDown (fov symmetric_view)\<bar>" "\<bar>angleDown (fov symmetric_view)\<bar> < pi / 2"
    using pi_ge_two by (simp_all add: symmetric_view_def)
  from getScreenCenter_symmetric [OF i v a r d] i v a r d show ?thesis by simp
qed

lemma accessors_without_view:
  assumes "eyeToViewIndex eye \<ge> m_viewCount s"
  shows "getPoseOrientation s eye unit = Returns ([no_view eye], (0, 0, 0))"
    and "getPosePosition s eye = Returns ([no_view eye], (0, 0, 0))"
    and "getFieldOfView s eye unit = Returns ([no_view eye], (0, 0, 0, 0))"
    and "getScreenCenter s eye = Returns ([no_view eye], (Finite 0, Finite 0))"
    and "getPoseQuaternion uninitialised s eye = Returns ([no_view eye], uninitialised)"
  using assms
  by (simp_all add: getPoseOrientation_def getPosePosition_def getFieldOfView_def
        getScreenCenter_def getPoseQuaternion_def Let_def)

text \<open>
  C4 holds of four of the five accessors (\<open>accessors_without_view\<close>) and not of
  \<open>getPoseQuaternion\<close>: asked for the right eye of an object without views, it writes the
  warning and returns the coefficients it found in memory, here 1, 2, 3 and 4, not zeros.
\<close>

theorem getPoseQuaternion_without_view:
  "eyeToViewIndex RIGHT \<ge> m_viewCount (OpenXRHMD no_frame) \<and>
   getPoseQuaternion (1, 2, 3, 4) (OpenXRHMD no_frame) RIGHT =
     Returns ([''View for RIGHT eye does not exist''], (1, 2, 3, 4))"
  by (simp add: getPoseQuaternion_def OpenXRHMD_def eyeToViewIndex_def no_view_def eyeToString_def)

subsection \<open>Refresh report\<close>

text \<open>
  C5, as stated, fails: the empty \<open>submitFrame()\<close> does not count the frame.
\<close>

theorem submitFrame_empty_not_counted:
  "totalRenderedFrames (m_currentFrameRefreshReport
       (snd (submitFrame (world XR_SESSION_STATE_IDLE []) (OpenXRHMD no_frame)))) \<noteq>
   totalRenderedFrames (m_currentFrameRefreshReport (OpenXRHMD no_frame)) + 1"
  by (simp add: submitFrame_def call_def Let_def OpenXRHMD_def world_def accepted_def xrCheck_def
        empty_report_def)

lemma updateRefreshReport_below:
  assumes "totalRenderedFrames (m_currentFrameRefreshReport s) + 1 \<noteq> 100"
  shows "updateRefreshReport rt s =
           s\<lparr>calls := calls s @ [XrConvertTimeToXrTime],
             m_currentFrameRefreshReport :=
               counted (m_currentFrameRefreshReport s) (m_lastFrameState s)
                 (r_time (rt (calls s @ [XrConvertTimeToXrTime])))\<rparr>"
  using assms by (simp add: updateRefreshReport_def call_def Let_def counted_def)

lemma updateRefreshReport_hundredth:
  assumes "totalRenderedFrames (m_currentFrameRefreshReport s) + 1 = 100"
  shows "m_lastFrameRefreshReport (updateRefreshReport rt s) =
           (counted (m_currentFrameRefreshReport s) (m_lastFrameState s)
              (r_time (rt (calls s @ [XrConvertTimeToXrTime]))))
             \<lparr>measuredFramerate :=
                float_div 100000
                  (real_of_int
                    ((r_time (rt (calls s @ [XrConvertTimeToXrTime, ClockNow])) -
                      firstFrameTimestamp (m_currentFrameRefreshReport s)) sdiv 1000000))\<rparr>"
    and "m_currentFrameRefreshReport (updateRefreshReport rt s) =
           empty_report\<lparr>firstFrameTimestamp :=
             r_time (rt (calls s @ [XrConvertTimeToXrTime, ClockNow, ClockNow]))\<rparr>"
    and "m_lastFrameState (updateRefreshReport rt s) = m_lastFrameState s"
  using assms
  by (simp_all add: updateRefreshReport_def call_def Let_def counted_def empty_report_def)

text \<open>
  C5, amended: a rendering submission, that is \<open>submitFrame(renderFunc)\<close> while
  \<open>shouldRender()\<close> is true and with a successful \<open>xrBeginFrame\<close>, counts one frame into
  the accumulating report: the total goes up by one, the missed frames go up by one when the
  predicted display time lies before the time the runtime reports for now, and the expected
  rate is set from the predicted display period; when the total reaches 100 the counted
  report is published and the accumulating counters restart at 0. The empty
  \<open>submitFrame()\<close> leaves both reports as they are.
\<close>

theorem submitFrame_RenderFunc_counts:
  "(submitFrame_RenderFunc rt s = Returns (b, s') \<and> shouldRender s \<and>
    xrCheck (rt (calls s @ [XrBeginFrame])) \<longrightarrow>
      (\<exists>h rest. calls s' = h @ XrConvertTimeToXrTime # rest \<and> XrConvertTimeToXrTime \<notin> set rest \<and>
         (let c = counted (m_currentFrameRefreshReport s) (m_lastFrameState s)
                    (r_time (rt (h @ [XrConvertTimeToXrTime]))) in
          if totalRenderedFrames c = 100
          then nbMissedFrames (m_lastFrameRefreshReport s') = nbMissedFrames c \<and>
               totalRenderedFrames (m_lastFrameRefreshReport s') = 100 \<and>
               expectedFramerate (m_lastFrameRefreshReport s') = expectedFramerate c \<and>
               totalRenderedFrames (m_currentFrameRefreshReport s') = 0 \<and>
               nbMissedFrames (m_currentFrameRefreshReport s') = 0
          else m_currentFrameRefreshReport s' = c \<and>
               m_lastFrameRefreshReport s' = m_lastFrameRefreshReport s))) \<and>
   m_currentFrameRefreshReport (snd (submitFrame rt s)) = m_currentFrameRefreshReport s \<and>
   m_lastFrameRefreshReport (snd (submitFrame rt s)) = m_lastFrameRefreshReport s"
proof (intro conjI impI)
  show "m_currentFrameRefreshReport (snd (submitFrame rt s)) = m_currentFrameRefreshReport s"
    by (simp add: submitFrame_def call_def Let_def)
  show "m_lastFrameRefreshReport (snd (submitFrame rt s)) = m_lastFrameRefreshReport s"
    by (simp add: submitFrame_def call_def Let_def)
next
  assume a: "submitFrame_RenderFunc rt s = Returns (b, s') \<and> shouldRender s \<and>
    xrCheck (rt (calls s @ [XrBeginFrame]))"
  define s1 where "s1 = snd (call rt XrBeginFrame s)"
  from a obtain s2 where
    loop: "renderViews rt 0 s1 = Returns s2" and
    fin: "s' = snd (call rt (XrEndFrame 1) (updateRefreshReport rt s2))"
    by (auto simp: submitFrame_RenderFunc_def s1_def call_def Let_def
             split: outcome.splits if_splits)
  have same: "m_currentFrameRefreshReport s2 = m_currentFrameRefreshReport s"
             "m_lastFrameRefreshReport s2 = m_lastFrameRefreshReport s"
             "m_lastFrameState s2 = m_lastFrameState s"
    using renderViews_reports [OF loop] by (simp_all add: s1_def call_def)
  let ?c = "counted (m_currentFrameRefreshReport s) (m_lastFrameState s)
              (r_time (rt (calls s2 @ [XrConvertTimeToXrTime])))"
  have total: "totalRenderedFrames ?c = totalRenderedFrames (m_currentFrameRefreshReport s) + 1"
    by (simp add: counted_def)
  show "\<exists>h rest. calls s' = h @ XrConvertTimeToXrTime # rest \<and> XrConvertTimeToXrTime \<notin> set rest \<and>
         (let c = counted (m_currentFrameRefreshReport s) (m_lastFrameState s)
                    (r_time (rt (h @ [XrConvertTimeToXrTime]))) in
          if totalRenderedFrames c = 100
          then nbMissedFrames (m_lastFrameRefreshReport s') = nbMissedFrames c \<and>
               totalRenderedFrames (m_lastFrameRefreshReport s') = 100 \<and>
               expectedFramerate (m_lastFrameRefreshReport s') = expectedFramerate c \<and>
               totalRenderedFrames (m_currentFrameRefreshReport s') = 0 \<and>
               nbMissedFrames (m_currentFrameRefreshReport s') = 0
          else m_currentFrameRefreshReport s' = c \<and>
               m_lastFrameRefreshReport s' = m_lastFrameRefreshReport s)"
  proof (cases "totalRenderedFrames (m_currentFrameRefreshReport s) + 1 = 100")
    case True
    then have t2: "totalRenderedFrames (m_currentFrameRefreshReport s2) + 1 = 100"
      by (simp add: same)
    have "calls s' = calls s2 @ XrConvertTimeToXrTime # [ClockNow, ClockNow, XrEndFrame 1]"
      using t2 by (simp add: fin call_def updateRefreshReport_calls)
    moreover have "XrConvertTimeToXrTime \<notin> set [ClockNow, ClockNow, XrEndFrame 1]" by simp
    moreover have "nbMissedFrames (m_lastFrameRefreshReport s') = nbMissedFrames ?c \<and>
               totalRenderedFrames (m_lastFrameRefreshReport s') = 100 \<and>
               expectedFramerate (m_lastFrameRefreshReport s') = expectedFramerate ?c \<and>
               totalRenderedFrames (m_currentFrameRefreshReport s') = 0 \<and>
               nbMissedFrames (m_currentFrameRefreshReport s') = 0"
      using True total
      by (simp add: fin call_def updateRefreshReport_hundredth [OF t2] same empty_report_def)
    ultimately show ?thesis using True total by (metis (no_types, lifting))
  next
    case False
    then have t2: "totalRenderedFrames (m_currentFrameRefreshReport s2) + 1 \<noteq> 100"
      by (simp add: same)
    have "calls s' = calls s2 @ XrConvertTimeToXrTime # [XrEndFrame 1]"
      using t2 by (simp add: fin call_def updateRefreshReport_calls)
    moreover have "XrConvertTimeToXrTime \<notin> set [XrEndFrame 1]" by simp
    moreover have "m_currentFrameRefreshReport s' = ?c \<and>
               m_lastFrameRefreshReport s' = m_lastFrameRefreshReport s"
      by (simp add: fin call_def updateRefreshReport_below [OF t2] same)
    ultimately show ?thesis using False total by (metis (no_types, lifting))
  qed
qed

text \<open>A rendered frame of the running session, counted as the first of its window.\<close>

theorem submitFrame_RenderFunc_counts_witness:
  "submitFrame_RenderFunc (world XR_SESSION_STATE_IDLE []) stereo_hmd \<noteq> Undefined \<and>
   shouldRender stereo_hmd \<and>
   xrCheck (world XR_SESSION_STATE_IDLE [] (calls stereo_hmd @ [XrBeginFrame])) \<and>
   m_currentFrameRefreshReport
     (snd (returned (submitFrame_RenderFunc (world XR_SESSION_STATE_IDLE []) stereo_hmd))) =
     \<lparr>nbMissedFrames = 0, totalRenderedFrames = 1,
      expectedFramerate = Finite (1000000000 / 11111111), measuredFramerate = Finite 0,
      firstFrameTimestamp = 0\<rparr>"
proof -
  let ?rt = "world XR_SESSION_STATE_IDLE []"
  let ?r = "submitFrame_RenderFunc ?rt stereo_hmd"
  have d: "?r \<noteq> Undefined" by code_simp
  then have r: "?r = Returns (fst (returned ?r), snd (returned ?r))" by (cases ?r) simp_all
  have sr: "shouldRender stereo_hmd" by code_simp
  have b: "xrCheck (?rt (calls stereo_hmd @ [XrBeginFrame]))" by code_simp
  have now: "r_time (?rt h) = 1000" for h by (simp add: world_def accepted_def)
  have c: "counted (m_currentFrameRefreshReport stereo_hmd) (m_lastFrameState stereo_hmd) 1000 =
     \<lparr>nbMissedFrames = 0, totalRenderedFrames = 1,
      expectedFramerate = Finite (1000000000 / 11111111), measuredFramerate = Finite 0,
      firstFrameTimestamp = 0\<rparr>"
    by (simp add: counted_def stereo_hmd_def OpenXRHMD_def empty_report_def float_div_def)
  from submitFrame_RenderFunc_counts [of ?rt stereo_hmd "fst (returned ?r)" "snd (returned ?r)"] r sr b
  have "m_currentFrameRefreshReport (snd (returned ?r)) =
          counted (m_currentFrameRefreshReport stereo_hmd) (m_lastFrameState stereo_hmd) 1000"
    by (auto simp: now c Let_def split: if_splits)
  with d sr b c show ?thesis by simp
qed

lemma count_below:
  assumes "n < 99"
  shows "(of_nat n + 1 :: 32 word) \<noteq> 100"
proof
  assume "(of_nat n + 1 :: 32 word) = 100"
  then have "(of_nat (Suc n) :: 32 word) = of_nat 100" by simp
  then have "take_bit 32 (Suc n) = take_bit 32 (100::nat)"
    unfolding word_of_nat_eq_iff by simp
  with assms show False by (simp add: take_bit_eq_mod)
qed

lemma window_progress:
  assumes "totalRenderedFrames (m_currentFrameRefreshReport s) = 0"
    and "nbMissedFrames (m_currentFrameRefreshReport s) = 0"
    and "\<forall>h. r_time (rt (h @ [XrConvertTimeToXrTime])) \<le> predictedDisplayTime (m_lastFrameState s)"
    and "n \<le> 99"
  shows "totalRenderedFrames (m_currentFrameRefreshReport ((updateRefreshReport rt ^^ n) s)) = of_nat n \<and>
         nbMissedFrames (m_currentFrameRefreshReport ((updateRefreshReport rt ^^ n) s)) = 0 \<and>
         firstFrameTimestamp (m_currentFrameRefreshReport ((updateRefreshReport rt ^^ n) s)) =
           firstFrameTimestamp (m_currentFrameRefreshReport s) \<and>
         m_lastFrameState ((updateRefreshReport rt ^^ n) s) = m_lastFrameState s \<and>
         m_lastFrameRefreshReport ((updateRefreshReport rt ^^ n) s) = m_lastFrameRefreshReport s"
  using assms(4)
proof (induction n)
  case 0
  show ?case using assms(1,2) by simp
next
  case (Suc n)
  let ?s = "(updateRefreshReport rt ^^ n) s"
  from Suc have ih:
    "totalRenderedFrames (m_currentFrameRefreshReport ?s) = of_nat n"
    "nbMissedFrames (m_currentFrameRefreshReport ?s) = 0"
    "firstFrameTimestamp (m_currentFrameRefreshReport ?s) =
       firstFrameTimestamp (m_currentFrameRefreshReport s)"
    "m_lastFrameState ?s = m_lastFrameState s"
    "m_lastFrameRefreshReport ?s = m_lastFrameRefreshReport s"
    by simp_all
  from Suc.prems have "n < 99" by simp
  then have below: "totalRenderedFrames (m_currentFrameRefreshReport ?s) + 1 \<noteq> 100"
    using count_below by (simp add: ih)
  have timely: "\<not> predictedDisplayTime (m_lastFrameState s) <
                  r_time (rt (calls ?s @ [XrConvertTimeToXrTime]))"
    using assms(3) by (simp add: not_less)
  show ?case
    using timely by (simp add: updateRefreshReport_below [OF below] counted_def ih)
qed

text \<open>
  C7: a window that starts empty and counts 100 frames, none of them missed, with the
  predicted display period \<open>P\<close> (not zero) is published by the hundredth count: the last
  report then holds 100 frames, no missed frame, the expected rate \<open>10\<^sup>9 / P\<close> and the rate
  measured over the window (100 frames by the milliseconds since the window's time stamp),
  and the accumulating report restarts with 0 frames.
\<close>

theorem refresh_report_hundred_frames:
  assumes "totalRenderedFrames (m_currentFrameRefreshReport s) = 0"
    and "nbMissedFrames (m_currentFrameRefreshReport s) = 0"
    and "predictedDisplayPeriod (m_lastFrameState s) = P" and "P \<noteq> 0"
    and "\<forall>h. r_time (rt (h @ [XrConvertTimeToXrTime])) \<le> predictedDisplayTime (m_lastFrameState s)"
  shows "expectedFramerate (m_lastFrameRefreshReport ((updateRefreshReport rt ^^ 100) s)) =
           Finite (1000000000 / real_of_int P) \<and>
         totalRenderedFrames (m_lastFrameRefreshReport ((updateRefreshReport rt ^^ 100) s)) = 100 \<and>
         nbMissedFrames (m_lastFrameRefreshReport ((updateRefreshReport rt ^^ 100) s)) = 0 \<and>
         measuredFramerate (m_lastFrameRefreshReport ((updateRefreshReport rt ^^ 100) s)) =
           float_div 100000
             (real_of_int
               ((r_time (rt (calls ((updateRefreshReport rt ^^ 99) s) @
                              [XrConvertTimeToXrTime, ClockNow])) -
                 firstFrameTimestamp (m_currentFrameRefreshReport s)) sdiv 1000000)) \<and>
         totalRenderedFrames (m_currentFrameRefreshReport ((updateRefreshReport rt ^^ 100) s)) = 0 \<and>
         nbMissedFrames (m_currentFrameRefreshReport ((updateRefreshReport rt ^^ 100) s)) = 0"
proof -
  let ?s = "(updateRefreshReport rt ^^ 99) s"
  have split: "(updateRefreshReport rt ^^ 100) s = updateRefreshReport rt ?s"
    by (simp add: numeral_eq_Suc)
  note p = window_progress [OF assms(1,2,5), of 99, simplified]
  have t: "totalRenderedFrames (m_currentFrameRefreshReport ?s) + 1 = 100" using p by simp
  have timely: "\<not> predictedDisplayTime (m_lastFrameState s) <
                  r_time (rt (calls ?s @ [XrConvertTimeToXrTime]))"
    using assms(5) by (simp add: not_less)
  show ?thesis
    unfolding split
    using timely assms(3,4) p
    by (simp add: updateRefreshReport_hundredth [OF t] counted_def empty_report_def float_div_def)
qed

text \<open>A window of 100 frames at 90 Hz, as the running session counts it.\<close>

theorem refresh_report_hundred_frames_witness:
  "totalRenderedFrames (m_currentFrameRefreshReport stereo_hmd) = 0 \<and>
   nbMissedFrames (m_currentFrameRefreshReport stereo_hmd) = 0 \<and>
   predictedDisplayPeriod (m_lastFrameState stereo_hmd) = 11111111 \<and>
   (\<forall>h. r_time (world XR_SESSION_STATE_IDLE [] (h @ [XrConvertTimeToXrTime])) \<le>
          predictedDisplayTime (m_lastFrameState stereo_hmd)) \<and>
   expectedFramerate (m_lastFrameRefreshReport
      ((updateRefreshReport (world XR_SESSION_STATE_IDLE []) ^^ 100) stereo_hmd)) =
     Finite (1000000000 / 11111111) \<and>
   totalRenderedFrames (m_lastFrameRefreshReport
      ((updateRefreshReport (world XR_SESSION_STATE_IDLE []) ^^ 100) stereo_hmd)) = 100 \<and>
   totalRenderedFrames (m_currentFrameRefreshReport
      ((updateRefreshReport (world XR_SESSION_STATE_IDLE []) ^^ 100) stereo_hmd)) = 0"
proof -
  have f: "totalRenderedFrames (m_currentFrameRefreshReport stereo_hmd) = 0"
          "nbMissedFrames (m_currentFrameRefreshReport stereo_hmd) = 0"
    by (simp_all add: stereo_hmd_def OpenXRHMD_def empty_report_def)
  have p: "predictedDisplayPeriod (m_lastFrameState stereo_hmd) = 11111111"
    by (simp add: stereo_hmd_def OpenXRHMD_def)
  have n: "(11111111::int) \<noteq> 0" by simp
  have t: "\<forall>h. r_time (world XR_SESSION_STATE_IDLE [] (h @ [XrConvertTimeToXrTime])) \<le>
               predictedDisplayTime (m_lastFrameState stereo_hmd)"
    by (simp add: world_def accepted_def stereo_hmd_def OpenXRHMD_def)
  from refresh_report_hundred_frames [OF f p n t] f p t show ?thesis by simp
qed

end
